theory Spec2Isabelle
  imports Complex_Main "HOL-Library.Multiset"
begin

section \<open>Data model (shared/types/EquationTypes)\<close>

text \<open>
  Numbers: a JavaScript \<open>number\<close> is modelled as an exact rational (\<^typ>\<open>rat\<close>), so
  rounding, infinities and NaN are outside the model.  Strings are lists of \<^typ>\<open>char\<close>, one
  element per code unit, restricted to the code units 0 to 255.  The fields the source fills
  from the clock and the random generator (equation id, step id, timestamp, parseTime) are
  left out, and so are the human-readable message texts: an error or a warning carries a
  constructor that names the message of the source.  An optional field is an \<open>option\<close>,
  with \<open>None\<close> for \<open>undefined\<close>.  The exponent of a term is a natural number.  The node
  type of an expression, always \<open>binary_operation\<close> in the engine, is left out.
\<close>

datatype EquationType = basic | standard | distributive | complex | fractional | multi_step

datatype OperationType =
  addition | subtraction | multiplication | division | distribution | combination
  | transposition | isolation

datatype TokenType =
  NUMBER | VARIABLE | OPERATOR | EQUALS | LPAREN | RPAREN | FRACTION_BAR | WHITESPACE | EOF

record Token =
  tok_type :: TokenType
  tok_value :: string
  tok_start :: nat
  tok_end :: nat

record Term =
  coefficient :: rat
  variable :: "string option"
  exponent :: "nat option"
  isConstant :: bool
  term_start :: nat
  term_end :: nat

record Expression =
  terms :: "Term list option"
  simplified :: bool

datatype ErrorType =
  syntax_error | invalid_character | missing_operator | mismatched_parentheses
  | division_by_zero | invalid_variable | empty_expression

datatype Severity = low | medium | high | critical

datatype WarningType = unnecessary_parentheses | can_be_simplified | unusual_format | high_complexity

text \<open>The message of each \<open>addError\<close>, \<open>errors.push\<close>, \<open>addWarning\<close> and
  \<open>warnings.push\<close> site of Parser.ts and Validator.ts, with the values it interpolates.\<close>

datatype Message =
  Equation_is_empty
  | Missing_equals_sign
  | Invalid_character char
  | Empty_expression_detected
  | Negative_sign_without_term
  | Equation_cannot_be_empty
  | Invalid_characters_found string
  | Only_one_equals_sign
  | Closing_parenthesis_unopened
  | Closing_parentheses_missing
  | Invalid_consecutive_operators string
  | Consecutive_operators_simplify string
  | Variable_not_standard string
  | Multiple_variables "string list"
  | Equation_without_variables

record EquationError =
  err_type :: ErrorType
  err_message :: Message
  err_severity :: Severity
  err_position :: "(nat \<times> nat) option"

record EquationWarning =
  warn_type :: WarningType
  warn_message :: Message

record EngineConfig =
  supportedTypes :: "EquationType list"
  maxComplexity :: nat
  allowFractions :: bool
  allowDecimals :: bool
  maxSteps :: nat
  timeoutMs :: nat
  generateAlternatives :: bool

definition DEFAULT_ENGINE_CONFIG :: EngineConfig where
  "DEFAULT_ENGINE_CONFIG =
     \<lparr>supportedTypes = [basic, standard, distributive], maxComplexity = 10,
      allowFractions = True, allowDecimals = True, maxSteps = 20, timeoutMs = 5000,
      generateAlternatives = True\<rparr>"

definition SUPPORTED_VARIABLES :: "string list" where
  "SUPPORTED_VARIABLES = [''x'', ''y'', ''z'', ''a'', ''b'', ''c'', ''n'', ''t'']"

section \<open>Tokenizer (Parser.ts, tokenize)\<close>

text \<open>The character classes of the regular expressions \<open>\s\<close>, \<open>\d\<close> and \<open>[a-zA-Z]\<close>,
  on the code units 0 to 255.\<close>

definition is_space :: "char \<Rightarrow> bool" where
  "is_space c \<longleftrightarrow>
     c \<in> set [CHR 0x09, CHR 0x0A, CHR 0x0B, CHR 0x0C, CHR 0x0D, CHR 0x20, CHR 0xA0]"

definition is_digit :: "char \<Rightarrow> bool" where
  "is_digit c \<longleftrightarrow> c \<in> set ''0123456789''"

definition is_letter :: "char \<Rightarrow> bool" where
  "is_letter c \<longleftrightarrow> c \<in> set ''abcdefghijklmnopqrstuvwxyzABCDEFGHIJKLMNOPQRSTUVWXYZ''"

text \<open>The scanners work on \<open>rest\<close>, the input from index \<open>start\<close> on
  (\<open>input.slice(start)\<close>), and return the token with the new position.\<close>

fun number_run :: "bool \<Rightarrow> bool \<Rightarrow> string \<Rightarrow> nat" where
  "number_run allowDec hasDecimal [] = 0"
| "number_run allowDec hasDecimal (c # cs) =
     (if is_digit c then Suc (number_run allowDec hasDecimal cs)
      else if c = CHR ''.'' \<and> \<not> hasDecimal \<and> allowDec then Suc (number_run allowDec True cs)
      else 0)"

definition parseNumber :: "EngineConfig \<Rightarrow> string \<Rightarrow> nat \<Rightarrow> Token \<times> nat" where
  "parseNumber cfg rest start =
     (let position = start + number_run (allowDecimals cfg) False rest
      in (\<lparr>tok_type = NUMBER, tok_value = take (position - start) rest,
           tok_start = start, tok_end = position\<rparr>, position))"

definition parseVariable :: "string \<Rightarrow> nat \<Rightarrow> Token \<times> EquationWarning list \<times> nat" where
  "parseVariable rest start =
     (let position = start + length (takeWhile is_letter rest);
          val = take (position - start) rest
      in (\<lparr>tok_type = VARIABLE, tok_value = val, tok_start = start, tok_end = position\<rparr>,
          (if val \<in> set SUPPORTED_VARIABLES then []
           else [\<lparr>warn_type = unusual_format, warn_message = Variable_not_standard val\<rparr>]),
          position))"

definition parseSymbol :: "char \<Rightarrow> nat \<Rightarrow> Token option" where
  "parseSymbol c position =
     (case map_of [(CHR ''+'', OPERATOR), (CHR ''-'', OPERATOR), (CHR ''*'', OPERATOR),
                   (CHR ''/'', OPERATOR), (CHR ''='', EQUALS), (CHR ''('', LPAREN),
                   (CHR '')'', RPAREN)] c of
        None \<Rightarrow> None
      | Some tokenType \<Rightarrow>
          Some \<lparr>tok_type = tokenType, tok_value = [c], tok_start = position,
                tok_end = position + 1\<rparr>)"

record Scan =
  scan_tokens :: "Token list"
  scan_errors :: "EquationError list"
  scan_warnings :: "EquationWarning list"

definition push_token :: "Token \<Rightarrow> EquationWarning list \<Rightarrow> Scan \<Rightarrow> Scan" where
  "push_token t ws s = s\<lparr>scan_tokens := t # scan_tokens s, scan_warnings := ws @ scan_warnings s\<rparr>"

definition push_error :: "EquationError \<Rightarrow> Scan \<Rightarrow> Scan" where
  "push_error e s = s\<lparr>scan_errors := e # scan_errors s\<rparr>"

text \<open>The loop of \<open>tokenize\<close>: \<open>rest\<close> is the input from \<open>position\<close> on.  The tokens,
  errors and warnings come out in the order in which the loop pushes them.\<close>

function tokenize_from :: "EngineConfig \<Rightarrow> nat \<Rightarrow> string \<Rightarrow> Scan" where
  "tokenize_from cfg position [] = \<lparr>scan_tokens = [], scan_errors = [], scan_warnings = []\<rparr>"
| "tokenize_from cfg position (c # cs) =
     (if is_space c then tokenize_from cfg (position + 1) cs
      else if is_digit c then
        (case parseNumber cfg (c # cs) position of
           (token, newPosition) \<Rightarrow>
             push_token token []
               (tokenize_from cfg newPosition (drop (newPosition - position) (c # cs))))
      else if is_letter c then
        (case parseVariable (c # cs) position of
           (token, ws, newPosition) \<Rightarrow>
             push_token token ws
               (tokenize_from cfg newPosition (drop (newPosition - position) (c # cs))))
      else
        (case parseSymbol c position of
           Some symbol \<Rightarrow> push_token symbol [] (tokenize_from cfg (position + 1) cs)
         | None \<Rightarrow>
             push_error \<lparr>err_type = invalid_character, err_message = Invalid_character c,
                         err_severity = medium, err_position = Some (position, position + 1)\<rparr>
               (tokenize_from cfg (position + 1) cs)))"
  by pat_completeness auto
termination
  apply (relation "measure (\<lambda>(cfg, position, rest). length rest)")
  apply (auto simp: parseNumber_def parseVariable_def Let_def)
  done

definition tokenize :: "EngineConfig \<Rightarrow> string \<Rightarrow> Scan" where
  "tokenize cfg input = tokenize_from cfg 0 input"

section \<open>Parser (Parser.ts)\<close>

text \<open>\<open>parseFloat\<close> on the text of a NUMBER token: a run of digits, then possibly a point
  and a second run of digits.  The value is exact.\<close>

definition digit_value :: "char \<Rightarrow> nat" where
  "digit_value c = length (takeWhile (\<lambda>d. d \<noteq> c) ''0123456789'')"

definition digits_to_nat :: "string \<Rightarrow> nat" where
  "digits_to_nat ds = foldl (\<lambda>n c. 10 * n + digit_value c) 0 ds"

definition parseFloat :: "string \<Rightarrow> rat" where
  "parseFloat s =
     (let whole = takeWhile is_digit s in
      case dropWhile is_digit s of
        [] \<Rightarrow> of_nat (digits_to_nat whole)
      | c # fs \<Rightarrow>
          if c = CHR ''.'' then
            (let frac = takeWhile is_digit fs
             in of_nat (digits_to_nat whole) + of_nat (digits_to_nat frac) / 10 ^ length frac)
          else of_nat (digits_to_nat whole))"

text \<open>\<open>parseSingleTerm\<close> returns the term (or null), the next index and the errors it
  adds.  A string is falsy when it is empty, which \<open>!variable\<close> and \<open>variable ? 1 : undefined\<close>
  test.\<close>

definition parseSingleTerm :: "Token list \<Rightarrow> nat \<Rightarrow> Term option \<times> nat \<times> EquationError list" where
  "parseSingleTerm tokens startIndex =
     (let hasSign = (startIndex < length tokens \<and> tok_type (tokens ! startIndex) = OPERATOR);
          sign = (if hasSign \<and> tok_value (tokens ! startIndex) = ''-'' then - 1 else 1 :: rat);
          index1 = (if hasSign then startIndex + 1 else startIndex);
          hasCoefficient = (index1 < length tokens \<and> tok_type (tokens ! index1) = NUMBER);
          coefficient0 = (if hasCoefficient then parseFloat (tok_value (tokens ! index1)) else 0);
          index2 = (if hasCoefficient then index1 + 1 else index1)
      in if index2 < length tokens \<and> tok_type (tokens ! index2) = VARIABLE then
           (let var = tok_value (tokens ! index2);
                index3 = index2 + 1;
                coeff = (if hasCoefficient then coefficient0 else 1)
            in if \<not> hasCoefficient \<and> var = [] then (None, index3 + 1, [])
               else (Some \<lparr>coefficient = sign * coeff, variable = Some var,
                            exponent = (if var \<noteq> [] then Some 1 else None),
                            isConstant = (var = []),
                            term_start = tok_start (tokens ! startIndex),
                            term_end = tok_end (tokens ! (index3 - 1))\<rparr>, index3, []))
         else if hasCoefficient then
           (Some \<lparr>coefficient = sign * coefficient0, variable = None, exponent = None,
                  isConstant = True,
                  term_start = tok_start (tokens ! startIndex),
                  term_end = tok_end (tokens ! (index2 - 1))\<rparr>, index2, [])
         else if sign = - 1 then
           (None, index2,
            [\<lparr>err_type = syntax_error, err_message = Negative_sign_without_term,
              err_severity = medium, err_position = None\<rparr>])
         else (None, index2 + 1, []))"

lemma parseSingleTerm_advances:
  "parseSingleTerm tokens i = (t, nextIndex, es) \<Longrightarrow> i < length tokens \<Longrightarrow> i < nextIndex"
  unfolding parseSingleTerm_def Let_def
  by (auto split: if_splits)

function parseTerms_loop :: "Token list \<Rightarrow> nat \<Rightarrow> Term list \<times> EquationError list" where
  "parseTerms_loop tokens i =
     (if i < length tokens then
        (case parseSingleTerm tokens i of
           (t, nextIndex, es) \<Rightarrow>
             (case parseTerms_loop tokens nextIndex of
                (ts, es') \<Rightarrow> ((case t of None \<Rightarrow> ts | Some t' \<Rightarrow> t' # ts), es @ es')))
      else ([], []))"
  by pat_completeness auto
termination
  apply (relation "measure (\<lambda>(tokens, i). length tokens - i)")
  apply simp
  subgoal for tokens i x y xa ya
    using parseSingleTerm_advances [of tokens i x xa ya] by auto
  done

declare parseTerms_loop.simps [simp del]

text \<open>The object \<open>simplified\<close> of \<open>combineAndSimplifyTerms\<close> (and \<open>termGroups\<close> of
  \<open>simplifyExpression\<close>) is an object literal: its own properties are kept here in
  insertion order.  A read \<open>simplified[key]\<close> of a key that is not an own property finds the
  property that the object inherits from \<open>Object.prototype\<close>, if the key names one; that value
  is truthy, so the branch that adds to \<open>.coefficient\<close> runs on the inherited object and no
  own property is created.  \<open>Object.values\<close> lists the own properties with the keys that are
  array indices first, in ascending order, and then the other keys in insertion order.\<close>

definition Object_prototype_keys :: "string list" where
  "Object_prototype_keys =
     [''constructor'', ''__proto__'', ''hasOwnProperty'', ''isPrototypeOf'',
      ''propertyIsEnumerable'', ''toLocaleString'', ''toString'', ''valueOf'',
      ''__defineGetter__'', ''__defineSetter__'', ''__lookupGetter__'', ''__lookupSetter__'']"

definition is_array_index :: "string \<Rightarrow> bool" where
  "is_array_index k \<longleftrightarrow>
     k \<noteq> [] \<and> list_all is_digit k \<and> (length k = 1 \<or> hd k \<noteq> CHR ''0'')
     \<and> digits_to_nat k < 4294967295"

definition Object_values :: "(string \<times> 'a) list \<Rightarrow> 'a list" where
  "Object_values props =
     map snd (sort_key (\<lambda>p. digits_to_nat (fst p)) (filter (\<lambda>p. is_array_index (fst p)) props))
     @ map snd (filter (\<lambda>p. \<not> is_array_index (fst p)) props)"

definition term_key :: "Term \<Rightarrow> string" where
  "term_key t = (case variable t of None \<Rightarrow> ''constant'' | Some v \<Rightarrow> if v = [] then ''constant'' else v)"

definition group_term :: "(string \<times> Term) list \<Rightarrow> Term \<Rightarrow> (string \<times> Term) list" where
  "group_term groups t =
     (let key = term_key t in
      case map_of groups key of
        Some g \<Rightarrow>
          map (\<lambda>p. if fst p = key
                    then (key, (snd p)\<lparr>coefficient := coefficient (snd p) + coefficient t\<rparr>)
                    else p) groups
      | None \<Rightarrow> if key \<in> set Object_prototype_keys then groups else groups @ [(key, t)])"

definition combineAndSimplifyTerms :: "Term list \<Rightarrow> Term list" where
  "combineAndSimplifyTerms ts =
     filter (\<lambda>t. \<bar>coefficient t\<bar> > 1 / 10 ^ 10) (Object_values (foldl group_term [] ts))"

definition parseTerms :: "Token list \<Rightarrow> Term list \<times> EquationError list" where
  "parseTerms tokens =
     (case parseTerms_loop tokens 0 of (ts, es) \<Rightarrow> (combineAndSimplifyTerms ts, es))"

definition createEmptyExpression :: Expression where
  "createEmptyExpression = \<lparr>terms = Some [], simplified = True\<rparr>"

text \<open>\<open>parseTerms\<close> raises nothing, so the \<open>catch\<close> of \<open>parseExpression\<close> is never
  entered.\<close>

definition parseExpression :: "Token list \<Rightarrow> Expression \<times> EquationError list" where
  "parseExpression tokens =
     (if tokens = [] then
        (createEmptyExpression,
         [\<lparr>err_type = empty_expression, err_message = Empty_expression_detected,
           err_severity = high, err_position = None\<rparr>])
      else (case parseTerms tokens of
              (ts, es) \<Rightarrow> (\<lparr>terms = Some ts, simplified = False\<rparr>, es)))"

text \<open>\<open>findEqualsSign\<close>: the index of the first EQUALS token, \<open>None\<close> for the source's
  \<open>-1\<close>.\<close>

fun findEqualsSign_from :: "Token list \<Rightarrow> nat \<Rightarrow> nat option" where
  "findEqualsSign_from [] i = None"
| "findEqualsSign_from (t # ts) i =
     (if tok_type t = EQUALS then Some i else findEqualsSign_from ts (i + 1))"

definition findEqualsSign :: "Token list \<Rightarrow> nat option" where
  "findEqualsSign tokens = findEqualsSign_from tokens 0"

datatype DifficultyLevel = beginner | intermediate | advanced | expert

record EquationMetadata =
  originalInput :: string
  difficultyLevel :: DifficultyLevel
  estimatedSteps :: nat
  requiredOperations :: "OperationType list"

record EquationAST =
  left :: Expression
  right :: Expression
  metadata :: EquationMetadata
  equationType :: EquationType
  variables :: "string list"
  complexity :: nat

record ParseResult =
  ast :: "EquationAST option"
  tokens :: "Token list"
  errors :: "EquationError list"
  warnings :: "EquationWarning list"

definition terms_of :: "Expression \<Rightarrow> Term list" where
  "terms_of e = (case terms e of None \<Rightarrow> [] | Some ts \<Rightarrow> ts)"

text \<open>A JavaScript \<open>Set\<close> keeps its elements in the order of their first insertion.\<close>

definition set_add :: "'a list \<Rightarrow> 'a \<Rightarrow> 'a list" where
  "set_add s x = (if x \<in> set s then s else s @ [x])"

definition term_variables :: "Term list \<Rightarrow> string list" where
  "term_variables ts = concat (map (\<lambda>t. case variable t of None \<Rightarrow> [] | Some v \<Rightarrow> if v = [] then [] else [v]) ts)"

definition extractVariablesFromExpressions :: "Expression list \<Rightarrow> string list" where
  "extractVariablesFromExpressions es =
     foldl set_add [] (concat (map (\<lambda>e. term_variables (terms_of e)) es))"

definition createEquationAST :: "Expression \<Rightarrow> Expression \<Rightarrow> string \<Rightarrow> EquationAST" where
  "createEquationAST l r input =
     \<lparr>left = l, right = r,
      metadata = \<lparr>originalInput = input, difficultyLevel = beginner, estimatedSteps = 0,
                  requiredOperations = []\<rparr>,
      equationType = basic,
      variables = extractVariablesFromExpressions [l, r],
      complexity = 0\<rparr>"

text \<open>\<open>parseEquation\<close>.  Nothing inside its \<open>try\<close> raises, so its \<open>catch\<close> is never
  entered.  The errors are those of the tokenizer, then of the left side, then of the right
  side, as the calls push them.\<close>

definition parseEquation :: "EngineConfig \<Rightarrow> string \<Rightarrow> ParseResult" where
  "parseEquation cfg input =
     (let sc = tokenize cfg input; toks = scan_tokens sc in
      if length toks = 0 then
        \<lparr>ast = None, tokens = toks,
         errors = scan_errors sc @
           [\<lparr>err_type = empty_expression, err_message = Equation_is_empty,
             err_severity = high, err_position = None\<rparr>],
         warnings = scan_warnings sc\<rparr>
      else
        (case findEqualsSign toks of
           None \<Rightarrow>
             \<lparr>ast = None, tokens = toks,
              errors = scan_errors sc @
                [\<lparr>err_type = syntax_error, err_message = Missing_equals_sign,
                  err_severity = high, err_position = None\<rparr>],
              warnings = scan_warnings sc\<rparr>
         | Some equalsIndex \<Rightarrow>
             (case parseExpression (take equalsIndex toks) of
                (leftExpression, les) \<Rightarrow>
                  (case parseExpression (drop (equalsIndex + 1) toks) of
                     (rightExpression, res) \<Rightarrow>
                       \<lparr>ast = Some (createEquationAST leftExpression rightExpression input),
                        tokens = toks,
                        errors = scan_errors sc @ les @ res,
                        warnings = scan_warnings sc\<rparr>))))"

section \<open>Type classifier (Parser.ts, detectEquationType)\<close>

definition hasDistributivePattern :: "EquationAST \<Rightarrow> bool" where
  "hasDistributivePattern a =
     (let allTerms = terms_of (left a) @ terms_of (right a)
      in length allTerms \<ge> 3
         \<and> list_ex (\<lambda>t. \<bar>coefficient t\<bar> > 1 \<and> \<not> isConstant t) allTerms)"

definition detectEquationType :: "EquationAST \<Rightarrow> EquationType \<times> EquationWarning list" where
  "detectEquationType a =
     (let leftTerms = terms_of (left a);
          rightTerms = terms_of (right a);
          allTerms = leftTerms @ rightTerms;
          variableTerms = filter (\<lambda>t. \<not> isConstant t) allTerms;
          hasMultipleTerms = (length variableTerms > 1)
      in if length variableTerms = 0 then
           (basic, [\<lparr>warn_type = unusual_format, warn_message = Equation_without_variables\<rparr>])
         else if length variableTerms = 1 \<and> length allTerms \<le> 2 then (basic, [])
         else if hasMultipleTerms \<and> length allTerms \<le> 4 then (standard, [])
         else if hasDistributivePattern a then (distributive, [])
         else if length allTerms > 4 then (complex, [])
         else (standard, []))"

section \<open>Evaluator (Evaluator.ts)\<close>

text \<open>A \<open>throw\<close> is an error value; \<open>Error_solving\<close> is the error that the \<open>catch\<close>
  of \<open>EquationEngine.solve\<close> raises around the one it caught.\<close>

datatype Error =
  No_variables_found
  | No_unique_solution
  | Cannot_evaluate_term "string option"
  | Error_solving Error

text \<open>\<open>term.exponent || 1\<close>: an absent exponent and the exponent 0 both give 1.\<close>

definition exponent_or_1 :: "Term \<Rightarrow> nat" where
  "exponent_or_1 t = (case exponent t of None \<Rightarrow> 1 | Some n \<Rightarrow> if n = 0 then 1 else n)"

definition evaluateTerm :: "Term \<Rightarrow> string \<Rightarrow> rat \<Rightarrow> Error + rat" where
  "evaluateTerm t var val =
     (if isConstant t then Inr (coefficient t)
      else if variable t = Some var then Inr (coefficient t * val ^ exponent_or_1 t)
      else Inl (Cannot_evaluate_term (variable t)))"

fun evaluate_loop :: "Term list \<Rightarrow> string \<Rightarrow> rat \<Rightarrow> rat \<Rightarrow> Error + rat" where
  "evaluate_loop [] var val result = Inr result"
| "evaluate_loop (t # ts) var val result =
     (case evaluateTerm t var val of
        Inl e \<Rightarrow> Inl e
      | Inr termValue \<Rightarrow> evaluate_loop ts var val (result + termValue))"

definition evaluateWithSubstitution :: "Expression \<Rightarrow> string \<Rightarrow> rat \<Rightarrow> Error + rat" where
  "evaluateWithSubstitution expression var val =
     (case terms expression of
        None \<Rightarrow> Inr 0
      | Some ts \<Rightarrow> if length ts = 0 then Inr 0 else evaluate_loop ts var val 0)"

text \<open>The argument \<open>var\<close> of \<open>getVariableCoefficient\<close> is \<open>equation.variables[0]\<close> at its
  call sites, which is \<open>undefined\<close> (here \<open>None\<close>) for an empty list; \<open>===\<close> then holds for
  the terms without a variable.\<close>

definition getVariableCoefficient :: "Expression \<Rightarrow> string option \<Rightarrow> rat" where
  "getVariableCoefficient expression var =
     (case terms expression of
        None \<Rightarrow> 0
      | Some ts \<Rightarrow>
          foldl (\<lambda>c t. if variable t = var then c + coefficient t else c) 0 ts)"

definition getConstantTerm :: "Expression \<Rightarrow> rat" where
  "getConstantTerm expression =
     (case terms expression of
        None \<Rightarrow> 0
      | Some ts \<Rightarrow> foldl (\<lambda>c t. if isConstant t then c + coefficient t else c) 0 ts)"

definition simplifyExpression :: "Expression \<Rightarrow> Expression" where
  "simplifyExpression expression =
     (case terms expression of
        None \<Rightarrow> expression
      | Some ts \<Rightarrow>
          if length ts = 0 then expression
          else expression
                 \<lparr>terms := Some (filter (\<lambda>t. \<bar>coefficient t\<bar> > 1 / 10 ^ 10)
                                   (Object_values (foldl group_term [] ts))),
                  simplified := True\<rparr>)"

definition multiplyByScalar :: "Expression \<Rightarrow> rat \<Rightarrow> Expression" where
  "multiplyByScalar expression scalar =
     (case terms expression of
        None \<Rightarrow> expression
      | Some ts \<Rightarrow>
          expression\<lparr>terms := Some (map (\<lambda>t. t\<lparr>coefficient := coefficient t * scalar\<rparr>) ts),
                      simplified := False\<rparr>)"

section \<open>Step generator (StepGenerator.ts)\<close>

text \<open>The description of a step, with the values that the source interpolates into the text.
  The justification and the hints of a step are fixed texts of the function that creates it
  and are left out.\<close>

datatype Description =
  Transpose_to_right_side rat
  | Reorganize_terms
  | Divide_both_sides_to_isolate rat "string option"
  | Combine_like_terms
  | Apply_distributive_property
  | Multiply_to_clear_fractions
  | Transpose_variable_terms_left
  | Transpose_constant_terms_right
  | Simplify_the_equation

record Step =
  step_type :: OperationType
  description :: Description
  fromExpression :: Expression
  toExpression :: Expression
  difficulty :: nat

record StepSequence =
  steps :: "Step list"
  isOptimal :: bool
  estimatedTime :: nat
  alternativeExists :: bool

definition first_variable :: "EquationAST \<Rightarrow> string option" where
  "first_variable equation = (case variables equation of [] \<Rightarrow> None | v # _ \<Rightarrow> Some v)"

definition generateTranspositionDescription :: "rat \<Rightarrow> Description" where
  "generateTranspositionDescription leftConstant =
     (if \<bar>leftConstant\<bar> > 1 / 10 ^ 10 then Transpose_to_right_side leftConstant
      else Reorganize_terms)"

definition createTransposedExpression :: "EquationAST \<Rightarrow> Expression" where
  "createTransposedExpression equation = simplifyExpression (left equation)"

definition createIsolatedExpression :: "EquationAST \<Rightarrow> Expression" where
  "createIsolatedExpression equation =
     \<lparr>terms = Some [\<lparr>coefficient = 1, variable = first_variable equation, exponent = Some 1,
                     isConstant = False, term_start = 0, term_end = 1\<rparr>],
      simplified = True\<rparr>"

definition createDistributedExpression :: "Expression \<Rightarrow> Expression" where
  "createDistributedExpression expression = simplifyExpression expression"

definition createClearedFractionsExpression :: "Expression \<Rightarrow> Expression" where
  "createClearedFractionsExpression expression = multiplyByScalar expression 2"

definition createVariableTransposedExpression :: "EquationAST \<Rightarrow> Expression" where
  "createVariableTransposedExpression equation = simplifyExpression (left equation)"

definition createConstantTransposedExpression :: "EquationAST \<Rightarrow> Expression" where
  "createConstantTransposedExpression equation = simplifyExpression (left equation)"

definition createTranspositionStep :: "EquationAST \<Rightarrow> Step" where
  "createTranspositionStep equation =
     \<lparr>step_type = transposition,
      description = generateTranspositionDescription (getConstantTerm (left equation)),
      fromExpression = left equation,
      toExpression = createTransposedExpression equation,
      difficulty = 2\<rparr>"

definition createIsolationStep :: "EquationAST \<Rightarrow> Step" where
  "createIsolationStep equation =
     (let var = first_variable equation;
          coeff = getVariableCoefficient (left equation) var
      in \<lparr>step_type = isolation,
          description = Divide_both_sides_to_isolate \<bar>coeff\<bar> var,
          fromExpression = left equation,
          toExpression = createIsolatedExpression equation,
          difficulty = 2\<rparr>)"

definition createCombinationStep :: "EquationAST \<Rightarrow> Step" where
  "createCombinationStep equation =
     \<lparr>step_type = combination, description = Combine_like_terms,
      fromExpression = left equation,
      toExpression = simplifyExpression (left equation),
      difficulty = 1\<rparr>"

definition createDistributiveStep :: "EquationAST \<Rightarrow> Step" where
  "createDistributiveStep equation =
     \<lparr>step_type = distribution, description = Apply_distributive_property,
      fromExpression = left equation,
      toExpression = createDistributedExpression (left equation),
      difficulty = 3\<rparr>"

definition createClearFractionsStep :: "EquationAST \<Rightarrow> Step" where
  "createClearFractionsStep equation =
     \<lparr>step_type = multiplication, description = Multiply_to_clear_fractions,
      fromExpression = left equation,
      toExpression = createClearedFractionsExpression (left equation),
      difficulty = 4\<rparr>"

definition createVariableTranspositionStep :: "EquationAST \<Rightarrow> Step" where
  "createVariableTranspositionStep equation =
     \<lparr>step_type = transposition, description = Transpose_variable_terms_left,
      fromExpression = left equation,
      toExpression = createVariableTransposedExpression equation,
      difficulty = 2\<rparr>"

definition createConstantTranspositionStep :: "EquationAST \<Rightarrow> Step" where
  "createConstantTranspositionStep equation =
     \<lparr>step_type = transposition, description = Transpose_constant_terms_right,
      fromExpression = left equation,
      toExpression = createConstantTransposedExpression equation,
      difficulty = 2\<rparr>"

definition needsTermTransposition :: "EquationAST \<Rightarrow> bool" where
  "needsTermTransposition equation =
     (let rightConstant = getConstantTerm (right equation);
          rightVariable = getVariableCoefficient (right equation) (first_variable equation)
      in \<bar>rightConstant\<bar> > 1 / 10 ^ 10 \<or> \<bar>rightVariable\<bar> > 1 / 10 ^ 10)"

definition needsTermCombination :: "EquationAST \<Rightarrow> bool" where
  "needsTermCombination equation =
     (let leftTerms = terms_of (left equation);
          rightTerms = terms_of (right equation);
          variableTermsLeft = length (filter (\<lambda>t. \<not> isConstant t) leftTerms);
          constantTermsLeft = length (filter (\<lambda>t. isConstant t) leftTerms);
          variableTermsRight = length (filter (\<lambda>t. \<not> isConstant t) rightTerms);
          constantTermsRight = length (filter (\<lambda>t. isConstant t) rightTerms)
      in variableTermsLeft > 1 \<or> constantTermsLeft > 1
         \<or> variableTermsRight > 1 \<or> constantTermsRight > 1)"

definition needsDistribution :: "EquationAST \<Rightarrow> bool" where
  "needsDistribution equation =
     list_ex (\<lambda>t. \<not> isConstant t \<and> \<bar>coefficient t\<bar> > 1)
       (terms_of (left equation) @ terms_of (right equation))"

definition hasAlternativeMethod :: "EquationAST \<Rightarrow> bool" where
  "hasAlternativeMethod equation \<longleftrightarrow>
     equationType equation \<in> set [distributive, complex, fractional]"

text \<open>\<open>applyStep\<close> returns the equation it is given.\<close>

definition applyStep :: "EquationAST \<Rightarrow> EquationAST" where
  "applyStep equation = equation"

definition generateBasicSteps :: "EquationAST \<Rightarrow> Step list" where
  "generateBasicSteps equation =
     (if needsTermTransposition equation
      then [createTranspositionStep equation, createIsolationStep (applyStep equation)]
      else [createIsolationStep equation])"

definition generateStandardSteps :: "EquationAST \<Rightarrow> Step list" where
  "generateStandardSteps equation =
     (let (steps1, eq1) =
            (if needsTermCombination equation
             then ([createCombinationStep equation], applyStep equation)
             else ([], equation));
          eq2 = applyStep eq1;
          eq3 = applyStep eq2
      in steps1 @ [createVariableTranspositionStep eq1, createConstantTranspositionStep eq2,
                   createIsolationStep eq3])"

definition generateDistributiveSteps :: "EquationAST \<Rightarrow> Step list" where
  "generateDistributiveSteps equation =
     (let (steps1, eq1) =
            (if needsDistribution equation
             then ([createDistributiveStep equation], applyStep equation)
             else ([], equation));
          eq2 = applyStep eq1
      in steps1 @ [createCombinationStep eq1] @ generateStandardSteps eq2)"

definition generateComplexSteps :: "EquationAST \<Rightarrow> Step list" where
  "generateComplexSteps equation = generateDistributiveSteps equation"

definition generateFractionalSteps :: "EquationAST \<Rightarrow> Step list" where
  "generateFractionalSteps equation =
     createClearFractionsStep equation # generateStandardSteps (applyStep equation)"

text \<open>No statement under \<open>analyzeAndGenerateSteps\<close> raises on a value of type EquationAST,
  so the model of the source's generator always returns \<open>Inr\<close>.\<close>

definition analyzeAndGenerateSteps :: "EquationAST \<Rightarrow> Error + Step list" where
  "analyzeAndGenerateSteps equation =
     Inr (case equationType equation of
            basic \<Rightarrow> generateBasicSteps equation
          | standard \<Rightarrow> generateStandardSteps equation
          | distributive \<Rightarrow> generateDistributiveSteps equation
          | complex \<Rightarrow> generateComplexSteps equation
          | fractional \<Rightarrow> generateFractionalSteps equation
          | multi_step \<Rightarrow> generateStandardSteps equation)"

definition timePerStep :: "OperationType \<Rightarrow> nat" where
  "timePerStep ty =
     (case ty of transposition \<Rightarrow> 45 | combination \<Rightarrow> 30 | distribution \<Rightarrow> 60
               | isolation \<Rightarrow> 30 | multiplication \<Rightarrow> 50 | _ \<Rightarrow> 40)"

definition estimateTimeForSteps :: "Step list \<Rightarrow> nat" where
  "estimateTimeForSteps ss = foldl (\<lambda>totalTime s. totalTime + timePerStep (step_type s) * difficulty s) 0 ss"

definition generateFallbackSteps :: "EquationAST \<Rightarrow> Step list" where
  "generateFallbackSteps equation =
     [\<lparr>step_type = combination, description = Simplify_the_equation,
       fromExpression = left equation, toExpression = right equation, difficulty = 1\<rparr>]"

text \<open>\<open>generateOptimalSequence\<close> is a \<open>try\<close> around the internal generator with a
  \<open>catch\<close> that builds the fallback sequence.  \<open>generateOptimalSequence_with\<close> is that
  \<open>try\<close>/\<open>catch\<close> around any internal generator \<open>gen\<close>; the source's method is its
  instance at \<open>analyzeAndGenerateSteps\<close>.\<close>

definition generateOptimalSequence_with ::
  "(EquationAST \<Rightarrow> Error + Step list) \<Rightarrow> EquationAST \<Rightarrow> Error + StepSequence" where
  "generateOptimalSequence_with gen equation =
     (case gen equation of
        Inr ss \<Rightarrow>
          Inr \<lparr>steps = ss, isOptimal = True, estimatedTime = estimateTimeForSteps ss,
               alternativeExists = hasAlternativeMethod equation\<rparr>
      | Inl error \<Rightarrow>
          Inr \<lparr>steps = generateFallbackSteps equation, isOptimal = False,
               estimatedTime = 300, alternativeExists = False\<rparr>)"

definition generateOptimalSequence :: "EquationAST \<Rightarrow> Error + StepSequence" where
  "generateOptimalSequence equation =
     generateOptimalSequence_with analyzeAndGenerateSteps equation"

section \<open>Input validation (Validator.ts, validateInput)\<close>

record ValidationResult =
  isValid :: bool
  val_errors :: "EquationError list"
  val_warnings :: "EquationWarning list"

text \<open>\<open>input.trim().length === 0\<close>: every code unit of the input is white space.\<close>

definition checkEmptyInput :: "string \<Rightarrow> EquationError list" where
  "checkEmptyInput input =
     (if list_all is_space input then
        [\<lparr>err_type = empty_expression, err_message = Equation_cannot_be_empty,
          err_severity = critical, err_position = None\<rparr>]
      else [])"

definition is_valid_char :: "char \<Rightarrow> bool" where
  "is_valid_char c \<longleftrightarrow> is_digit c \<or> is_letter c \<or> c \<in> set ''+-*/=().'' \<or> is_space c"

definition checkValidCharacters :: "string \<Rightarrow> EquationError list" where
  "checkValidCharacters input =
     (if \<not> list_all is_valid_char input then
        [\<lparr>err_type = invalid_character,
          err_message = Invalid_characters_found (filter (\<lambda>c. \<not> is_valid_char c) input),
          err_severity = high, err_position = None\<rparr>]
      else [])"

definition checkEqualsSign :: "string \<Rightarrow> EquationError list" where
  "checkEqualsSign input =
     (let equalsCount = length (filter (\<lambda>c. c = CHR ''='') input) in
      if equalsCount = 0 then
        [\<lparr>err_type = syntax_error, err_message = Missing_equals_sign,
          err_severity = high, err_position = None\<rparr>]
      else if equalsCount > 1 then
        [\<lparr>err_type = syntax_error, err_message = Only_one_equals_sign,
          err_severity = high, err_position = None\<rparr>]
      else [])"

fun checkParenthesesBalance_loop :: "string \<Rightarrow> int \<Rightarrow> nat \<Rightarrow> EquationError list" where
  "checkParenthesesBalance_loop [] balance position =
     (if balance > 0 then
        [\<lparr>err_type = mismatched_parentheses, err_message = Closing_parentheses_missing,
          err_severity = high, err_position = None\<rparr>]
      else [])"
| "checkParenthesesBalance_loop (c # cs) balance position =
     (if c = CHR ''('' then checkParenthesesBalance_loop cs (balance + 1) (position + 1)
      else if c = CHR '')'' then
        (if balance - 1 < 0 then
           [\<lparr>err_type = mismatched_parentheses, err_message = Closing_parenthesis_unopened,
             err_severity = high, err_position = Some (position, position + 1)\<rparr>]
         else checkParenthesesBalance_loop cs (balance - 1) (position + 1))
      else checkParenthesesBalance_loop cs balance (position + 1))"

definition checkParenthesesBalance :: "string \<Rightarrow> EquationError list" where
  "checkParenthesesBalance input = checkParenthesesBalance_loop input 0 0"

text \<open>The matches of \<open>/[+\-*/]{2,}/g\<close>: the maximal runs of two or more operator
  characters, from left to right.\<close>

definition is_operator_char :: "char \<Rightarrow> bool" where
  "is_operator_char c \<longleftrightarrow> c \<in> set ''+-*/''"

fun operator_runs :: "string \<Rightarrow> string \<Rightarrow> string list" where
  "operator_runs run [] = (if length run \<ge> 2 then [run] else [])"
| "operator_runs run (c # cs) =
     (if is_operator_char c then operator_runs (run @ [c]) cs
      else (if length run \<ge> 2 then [run] else []) @ operator_runs [] cs)"

definition checkConsecutiveOperators :: "string \<Rightarrow> EquationError list \<times> EquationWarning list" where
  "checkConsecutiveOperators input =
     (let matches = operator_runs [] input in
      (map (\<lambda>m. \<lparr>err_type = syntax_error, err_message = Invalid_consecutive_operators m,
                   err_severity = medium, err_position = None\<rparr>)
           (filter (\<lambda>m. \<not> (m = ''--'' \<or> m = ''++'')) matches),
       map (\<lambda>m. \<lparr>warn_type = can_be_simplified, warn_message = Consecutive_operators_simplify m\<rparr>)
           (filter (\<lambda>m. m = ''--'' \<or> m = ''++'') matches)))"

definition checkVariableUsage :: "string \<Rightarrow> EquationWarning list" where
  "checkVariableUsage input =
     (let uniqueVariables = foldl set_add [] (map (\<lambda>c. [c]) (filter is_letter input)) in
      map (\<lambda>v. \<lparr>warn_type = unusual_format, warn_message = Variable_not_standard v\<rparr>)
          (filter (\<lambda>v. v \<notin> set SUPPORTED_VARIABLES) uniqueVariables)
      @ (if length uniqueVariables > 1 then
           [\<lparr>warn_type = high_complexity, warn_message = Multiple_variables uniqueVariables\<rparr>]
         else []))"

text \<open>\<open>validateInput\<close>; the suggestion texts that it derives from the errors and warnings
  are left out.\<close>

definition validateInput :: "string \<Rightarrow> ValidationResult" where
  "validateInput input =
     (let es = checkEmptyInput input @ checkValidCharacters input @ checkEqualsSign input
               @ checkParenthesesBalance input @ fst (checkConsecutiveOperators input);
          ws = snd (checkConsecutiveOperators input) @ checkVariableUsage input
      in \<lparr>isValid = (length es = 0), val_errors = es, val_warnings = ws\<rparr>)"

section \<open>Engine (frontend EquationEngine.ts)\<close>

definition extractVariables :: "EquationAST \<Rightarrow> string list" where
  "extractVariables a =
     foldl set_add [] (term_variables (terms_of (left a)) @ term_variables (terms_of (right a)))"

definition typeComplexity :: "EquationType \<Rightarrow> nat" where
  "typeComplexity ty =
     (case ty of basic \<Rightarrow> 1 | standard \<Rightarrow> 2 | distributive \<Rightarrow> 3 | complex \<Rightarrow> 5
               | fractional \<Rightarrow> 4 | multi_step \<Rightarrow> 6)"

definition calculateComplexity :: "EquationAST \<Rightarrow> nat" where
  "calculateComplexity a =
     min (length (terms_of (left a)) + length (terms_of (right a))
          + typeComplexity (equationType a)) 10"

definition baseSteps :: "EquationType \<Rightarrow> nat" where
  "baseSteps ty =
     (case ty of basic \<Rightarrow> 2 | standard \<Rightarrow> 3 | distributive \<Rightarrow> 4 | complex \<Rightarrow> 6
               | fractional \<Rightarrow> 5 | multi_step \<Rightarrow> 8)"

definition estimateSteps :: "EngineConfig \<Rightarrow> EquationAST \<Rightarrow> nat" where
  "estimateSteps cfg a =
     (let steps0 = baseSteps (equationType a);
          steps1 = (if complexity a > 5 then steps0 + complexity a div 2 else steps0)
      in min steps1 (maxSteps cfg))"

definition analyzeRequiredOperations :: "EquationAST \<Rightarrow> OperationType list" where
  "analyzeRequiredOperations a =
     (case equationType a of
        basic \<Rightarrow> [transposition, isolation]
      | standard \<Rightarrow> [transposition, combination, isolation]
      | distributive \<Rightarrow> [distribution, combination, transposition, isolation]
      | complex \<Rightarrow> [distribution, combination, transposition, isolation]
      | fractional \<Rightarrow> [multiplication, combination, isolation]
      | multi_step \<Rightarrow> [combination, transposition, isolation])"

text \<open>\<open>enhanceAST\<close> computes every new field from the AST it is given, not from the copy it
  fills.  The warning of \<open>detectEquationType\<close> is pushed onto the parser's warning array,
  which is the array that the parse result holds, so it is returned here for \<open>parse\<close> to
  append.\<close>

definition enhanceAST :: "EngineConfig \<Rightarrow> EquationAST \<Rightarrow> EquationAST \<times> EquationWarning list" where
  "enhanceAST cfg a =
     (a\<lparr>equationType := fst (detectEquationType a),
        variables := extractVariables a,
        complexity := calculateComplexity a,
        metadata := (metadata a)\<lparr>estimatedSteps := estimateSteps cfg a,
                                  requiredOperations := analyzeRequiredOperations a\<rparr>\<rparr>,
      snd (detectEquationType a))"

definition parse :: "EngineConfig \<Rightarrow> string \<Rightarrow> ParseResult" where
  "parse cfg equation =
     (let validation = validateInput equation in
      if \<not> isValid validation then
        \<lparr>ast = None, tokens = [], errors = val_errors validation,
         warnings = val_warnings validation\<rparr>
      else
        (let result = parseEquation cfg equation in
         case ast result of
           None \<Rightarrow> result
         | Some a \<Rightarrow>
             (case enhanceAST cfg a of
                (enhanced, ws) \<Rightarrow>
                  result\<lparr>ast := Some enhanced, warnings := warnings result @ ws\<rparr>)))"

datatype SolutionMethod =
  direct_isolation | distribution_first | combination_first | cross_multiplication | elimination

record VerificationStep =
  substitution :: "string \<times> rat"
  leftSideResult :: rat
  rightSideResult :: rat
  ver_isValid :: bool

record PartialSolution =
  sol_variable :: string
  sol_value :: rat
  sol_steps :: "Step list"
  solutionMethod :: SolutionMethod

record Solution = PartialSolution +
  verificationsSteps :: "VerificationStep list"
  confidence :: rat

text \<open>The two \<open>forEach\<close> loops of \<open>solveMathematically\<close> update the pair of accumulators
  \<open>(variableCoeff, constantTerm)\<close>.\<close>

definition solveMathematically :: "EquationAST \<Rightarrow> string \<Rightarrow> Error + rat" where
  "solveMathematically equation var =
     (let leftTerms = terms_of (left equation);
          rightTerms = terms_of (right equation);
          acc1 = foldl (\<lambda>(variableCoeff, constantTerm) t.
                          if variable t = Some var then (variableCoeff + coefficient t, constantTerm)
                          else if isConstant t then (variableCoeff, constantTerm + coefficient t)
                          else (variableCoeff, constantTerm))
                       (0, 0) leftTerms;
          acc2 = foldl (\<lambda>(variableCoeff, constantTerm) t.
                          if variable t = Some var then (variableCoeff - coefficient t, constantTerm)
                          else if isConstant t then (variableCoeff, constantTerm - coefficient t)
                          else (variableCoeff, constantTerm))
                       acc1 rightTerms;
          variableCoeff = fst acc2;
          constantTerm = snd acc2
      in if \<bar>variableCoeff\<bar> < 1 / 10 ^ 10 then Inl No_unique_solution
         else Inr (- constantTerm / variableCoeff))"

definition determineSolutionMethod :: "EquationAST \<Rightarrow> SolutionMethod" where
  "determineSolutionMethod equation =
     (case equationType equation of
        basic \<Rightarrow> direct_isolation
      | distributive \<Rightarrow> distribution_first
      | fractional \<Rightarrow> cross_multiplication
      | _ \<Rightarrow> combination_first)"

definition applySolutionSteps :: "EquationAST \<Rightarrow> Step list \<Rightarrow> Error + PartialSolution" where
  "applySolutionSteps equation ss =
     (case variables equation of
        [] \<Rightarrow> Inl No_variables_found
      | var # _ \<Rightarrow>
          (case solveMathematically equation var of
             Inl e \<Rightarrow> Inl e
           | Inr finalValue \<Rightarrow>
               Inr \<lparr>sol_variable = var, sol_value = finalValue, sol_steps = ss,
                    solutionMethod = determineSolutionMethod equation\<rparr>))"

definition verifySolution :: "EquationAST \<Rightarrow> PartialSolution \<Rightarrow> Error + VerificationStep list" where
  "verifySolution equation solution =
     (case evaluateWithSubstitution (left equation) (sol_variable solution) (sol_value solution) of
        Inl e \<Rightarrow> Inl e
      | Inr leftResult \<Rightarrow>
          (case evaluateWithSubstitution (right equation) (sol_variable solution)
                  (sol_value solution) of
             Inl e \<Rightarrow> Inl e
           | Inr rightResult \<Rightarrow>
               Inr [\<lparr>substitution = (sol_variable solution, sol_value solution),
                     leftSideResult = leftResult, rightSideResult = rightResult,
                     ver_isValid = (\<bar>leftResult - rightResult\<bar> < 1 / 10 ^ 10)\<rparr>]))"

definition methodBonus :: "SolutionMethod \<Rightarrow> rat" where
  "methodBonus m =
     (case m of direct_isolation \<Rightarrow> 2 / 10 | distribution_first \<Rightarrow> 15 / 100
              | combination_first \<Rightarrow> 1 / 10 | cross_multiplication \<Rightarrow> 15 / 100
              | elimination \<Rightarrow> 5 / 100)"

definition calculateConfidence :: "PartialSolution \<Rightarrow> VerificationStep list \<Rightarrow> rat" where
  "calculateConfidence solution verification =
     (if length verification = 0 then 0
      else if \<not> list_all ver_isValid verification then 0
      else min (8 / 10 + methodBonus (solutionMethod solution)) 1)"

definition generateSteps :: "EquationAST \<Rightarrow> Error + StepSequence" where
  "generateSteps equation = generateOptimalSequence equation"

text \<open>\<open>solve\<close>: whatever is raised inside its \<open>try\<close> is raised again, wrapped.\<close>

definition solve :: "EquationAST \<Rightarrow> Error + Solution" where
  "solve equation =
     (case generateSteps equation of
        Inl e \<Rightarrow> Inl (Error_solving e)
      | Inr stepSequence \<Rightarrow>
          (case applySolutionSteps equation (steps stepSequence) of
             Inl e \<Rightarrow> Inl (Error_solving e)
           | Inr solution \<Rightarrow>
               (case verifySolution equation solution of
                  Inl e \<Rightarrow> Inl (Error_solving e)
                | Inr verification \<Rightarrow>
                    Inr \<lparr>sol_variable = sol_variable solution, sol_value = sol_value solution,
                         sol_steps = sol_steps solution,
                         solutionMethod = solutionMethod solution,
                         verificationsSteps = verification,
                         confidence = calculateConfidence solution verification\<rparr>)))"

section \<open>Engine (backend EquationEngine.ts)\<close>

text \<open>\<open>Math.round(x)\<close> is the integer nearest to \<open>x\<close>, the greater one at a tie.\<close>

definition Math_round :: "rat \<Rightarrow> rat" where
  "Math_round x = of_int \<lfloor>x + 1 / 2\<rfloor>"

definition solveMockEquation :: "EquationAST \<Rightarrow> rat" where
  "solveMockEquation equation =
     (let leftTerms = terms_of (left equation);
          rightTerms = terms_of (right equation);
          variableCoeff = foldl (\<lambda>c t. if isConstant t then c else c + coefficient t) 0 leftTerms;
          leftConstant = foldl (\<lambda>c t. if isConstant t then c + coefficient t else c) 0 leftTerms;
          rightConstant = foldl (\<lambda>c t. if isConstant t then c + coefficient t else c) 0 rightTerms
      in if \<bar>variableCoeff\<bar> < 1 / 1000 then 0
         else Math_round ((rightConstant - leftConstant) / variableCoeff * 1000) / 1000)"

text \<open>\<open>equation.variables[0] || 'x'\<close>: an empty list and an empty first name give \<open>x\<close>.\<close>

definition backend_solve :: "EquationAST \<Rightarrow> Solution" where
  "backend_solve equation =
     (let var = (case variables equation of [] \<Rightarrow> ''x'' | v # _ \<Rightarrow> if v = [] then ''x'' else v);
          val = solveMockEquation equation
      in \<lparr>sol_variable = var, sol_value = val, sol_steps = [],
          solutionMethod = direct_isolation,
          verificationsSteps =
            [\<lparr>substitution = (var, val), leftSideResult = val * 2 + 3, rightSideResult = 7,
              ver_isValid = (\<bar>(val * 2 + 3) - 7\<bar> < 1 / 1000)\<rparr>],
          confidence = 95 / 100\<rparr>)"

section \<open>Specification-side definitions and concrete inputs\<close>

text \<open>The classifier as the specification words it: the rules in order, first match wins,
  on the number of terms and the number of variable (non-constant) terms of both sides.\<close>

definition variable_term_count :: "EquationAST \<Rightarrow> nat" where
  "variable_term_count a =
     length (filter (\<lambda>t. \<not> isConstant t) (terms_of (left a) @ terms_of (right a)))"

definition classify_spec :: "EquationAST \<Rightarrow> EquationType" where
  "classify_spec a =
     (let allTerms = terms_of (left a) @ terms_of (right a);
          n = length allTerms;
          nvar = variable_term_count a
      in if nvar = 0 then basic
         else if nvar = 1 \<and> n \<le> 2 then basic
         else if nvar > 1 \<and> n \<le> 4 then standard
         else if n \<ge> 3 \<and> (\<exists>t \<in> set allTerms. \<not> isConstant t \<and> \<bar>coefficient t\<bar> > 1)
           then distributive
         else if n > 4 then complex
         else standard)"

text \<open>Builders for concrete inputs: a term as the parser builds it, and an AST around two
  term lists.\<close>

definition mk_term :: "rat \<Rightarrow> string option \<Rightarrow> Term" where
  "mk_term c v =
     \<lparr>coefficient = c, variable = v, exponent = (if v = None then None else Some 1),
      isConstant = (v = None), term_start = 0, term_end = 0\<rparr>"

definition mk_equation ::
  "Term list \<Rightarrow> Term list \<Rightarrow> EquationType \<Rightarrow> string list \<Rightarrow> EquationAST" where
  "mk_equation l r ty vs =
     \<lparr>left = \<lparr>terms = Some l, simplified = False\<rparr>,
      right = \<lparr>terms = Some r, simplified = False\<rparr>,
      metadata = \<lparr>originalInput = [], difficultyLevel = beginner,
                  estimatedSteps = 0, requiredOperations = []\<rparr>,
      equationType = ty, variables = vs, complexity = 0\<rparr>"

text \<open>The AST of \<open>0x + 3 = 7\<close>, with the zero term kept.\<close>

definition zero_coefficient_equation :: EquationAST where
  "zero_coefficient_equation =
     mk_equation [mk_term 0 (Some ''x''), mk_term 3 None] [mk_term 7 None] basic [''x'']"

text \<open>The accumulated coefficient and constant as the specification words them: the sum of
  the solved variable's coefficients on the left side minus those on the right side, and the
  same for the constants.\<close>

definition variable_sum :: "string \<Rightarrow> Term list \<Rightarrow> rat" where
  "variable_sum var ts = sum_list (map coefficient (filter (\<lambda>t. variable t = Some var) ts))"

definition constant_sum :: "string \<Rightarrow> Term list \<Rightarrow> rat" where
  "constant_sum var ts =
     sum_list (map coefficient (filter (\<lambda>t. variable t \<noteq> Some var \<and> isConstant t) ts))"

definition accumulated_coefficient :: "EquationAST \<Rightarrow> string \<Rightarrow> rat" where
  "accumulated_coefficient equation var =
     variable_sum var (terms_of (left equation)) - variable_sum var (terms_of (right equation))"

definition accumulated_constant :: "EquationAST \<Rightarrow> string \<Rightarrow> rat" where
  "accumulated_constant equation var =
     constant_sum var (terms_of (left equation)) - constant_sum var (terms_of (right equation))"


text \<open>Like terms as the data model of the specification defines them: both constant, or the
  same variable and exponent.\<close>

definition like_terms_spec :: "Term \<Rightarrow> Term \<Rightarrow> bool" where
  "like_terms_spec t u \<longleftrightarrow>
     (isConstant t \<and> isConstant u)
     \<or> (variable t = variable u \<and> exponent_or_1 t = exponent_or_1 u)"

text \<open>An expression that \<open>simplifyExpression\<close> leaves alone: no two terms share a grouping
  key, no key names a property inherited from \<open>Object.prototype\<close>, and every coefficient is
  above 1e-10 in absolute value.\<close>

definition already_simplified :: "Expression \<Rightarrow> bool" where
  "already_simplified e \<longleftrightarrow>
     distinct (map term_key (terms_of e))
     \<and> list_all (\<lambda>t. term_key t \<notin> set Object_prototype_keys) (terms_of e)
     \<and> list_all (\<lambda>t. \<bar>coefficient t\<bar> > 1 / 10 ^ 10) (terms_of e)"

text \<open>The ASTs of \<open>2x = 10\<close> and of \<open>x^2 = 4\<close>, and the expressions \<open>x + x^2\<close>,
  \<open>constructor\<close> (a variable of that name) and \<open>x + 1\<close>.\<close>

definition two_x_equals_ten :: EquationAST where
  "two_x_equals_ten = mk_equation [mk_term 2 (Some ''x'')] [mk_term 10 None] basic [''x'']"


definition x_and_x_squared :: Expression where
  "x_and_x_squared =
     \<lparr>terms = Some [mk_term 1 (Some ''x''), (mk_term 1 (Some ''x''))\<lparr>exponent := Some 2\<rparr>],
      simplified = True\<rparr>"

definition constructor_expression :: Expression where
  "constructor_expression =
     \<lparr>terms = Some [mk_term 1 (Some ''constructor'')], simplified = True\<rparr>"

definition x_plus_one :: Expression where
  "x_plus_one = \<lparr>terms = Some [mk_term 1 (Some ''x''), mk_term 1 None], simplified = True\<rparr>"






section \<open>Properties\<close>

subsection \<open>Tokenizer\<close>

text \<open>Claim C4 says that the tokenizer emits every VARIABLE token as exactly one letter and
  never turns a run of letters into one token.  The loop of \<open>parseVariable\<close> consumes the whole
  run, against its own comment ("only one letter for variables"): on \<open>xy = 2\<close> the first
  token is the VARIABLE \<open>xy\<close>.\<close>

theorem tokenize_multi_letter_variable:
  "scan_tokens (tokenize cfg ''xy = 2'') =
     [\<lparr>tok_type = VARIABLE, tok_value = ''xy'', tok_start = 0, tok_end = 2\<rparr>,
      \<lparr>tok_type = EQUALS, tok_value = ''='', tok_start = 3, tok_end = 4\<rparr>,
      \<lparr>tok_type = NUMBER, tok_value = ''2'', tok_start = 5, tok_end = 6\<rparr>]"
  by (simp add: tokenize_def is_space_def is_digit_def is_letter_def parseNumber_def
      parseVariable_def parseSymbol_def push_token_def Let_def)

subsection \<open>Parser\<close>

lemma number_run_take:
  "\<forall>x \<in> set (take (number_run ad h cs) cs). is_digit x \<or> x = CHR ''.''"
  by (induction cs arbitrary: h) auto

lemma equals_not_digit: "\<not> is_digit CHR ''=''" "\<not> is_letter CHR ''=''" "\<not> is_space CHR ''=''"
  by (simp_all add: is_digit_def is_letter_def is_space_def)

lemma equals_after_number:
  "CHR ''='' \<in> set (drop (number_run ad h cs) cs) \<longleftrightarrow> CHR ''='' \<in> set cs"
proof -
  have "set cs = set (take (number_run ad h cs) cs) \<union> set (drop (number_run ad h cs) cs)"
    by (metis append_take_drop_id set_append)
  moreover have "CHR ''='' \<notin> set (take (number_run ad h cs) cs)"
    using number_run_take [of ad h cs] equals_not_digit by auto
  ultimately show ?thesis by auto
qed

lemma equals_after_letters:
  "CHR ''='' \<in> set (drop (length (takeWhile is_letter cs)) cs) \<longleftrightarrow> CHR ''='' \<in> set cs"
proof -
  have "set cs = set (takeWhile is_letter cs) \<union> set (dropWhile is_letter cs)"
    by (metis takeWhile_dropWhile_id set_append)
  moreover have "CHR ''='' \<notin> set (takeWhile is_letter cs)"
    using equals_not_digit(2) by (auto dest: set_takeWhileD)
  ultimately show ?thesis by (auto simp: dropWhile_eq_drop)
qed

lemma tokenize_from_equals:
  "(\<exists>t \<in> set (scan_tokens (tokenize_from cfg position rest)). tok_type t = EQUALS)
     \<longleftrightarrow> CHR ''='' \<in> set rest"
proof (induction cfg position rest rule: tokenize_from.induct)
  case (1 cfg position)
  then show ?case by simp
next
  case (2 cfg position c cs)
  show ?case
  proof (cases "is_space c")
    case True
    with "2.IH"(1) show ?thesis using equals_not_digit by auto
  next
    case nsp: False
    show ?thesis
    proof (cases "is_digit c")
      case True
      let ?n = "number_run (allowDecimals cfg) False (c # cs)"
      have pn: "parseNumber cfg (c # cs) position =
                  (\<lparr>tok_type = NUMBER, tok_value = take ?n (c # cs), tok_start = position,
                    tok_end = position + ?n\<rparr>, position + ?n)"
        by (simp add: parseNumber_def Let_def)
      have ih: "(\<exists>t \<in> set (scan_tokens (tokenize_from cfg (position + ?n) (drop ?n (c # cs)))).
                   tok_type t = EQUALS) \<longleftrightarrow> CHR ''='' \<in> set (drop ?n (c # cs))"
        using "2.IH"(2) [OF nsp True pn [symmetric]] by simp
      have "tokenize_from cfg position (c # cs) =
              push_token \<lparr>tok_type = NUMBER, tok_value = take ?n (c # cs), tok_start = position,
                    tok_end = position + ?n\<rparr> []
                (tokenize_from cfg (position + ?n) (drop ?n (c # cs)))"
        using nsp True pn by simp
      then show ?thesis
        using ih equals_after_number [of "allowDecimals cfg" False "c # cs"]
        by (simp add: push_token_def)
    next
      case ndg: False
      show ?thesis
      proof (cases "is_letter c")
        case True
        let ?n = "length (takeWhile is_letter (c # cs))"
        obtain ws where pv: "parseVariable (c # cs) position =
                    (\<lparr>tok_type = VARIABLE, tok_value = take ?n (c # cs), tok_start = position,
                      tok_end = position + ?n\<rparr>, ws, position + ?n)"
          by (simp add: parseVariable_def Let_def)
        have ih: "(\<exists>t \<in> set (scan_tokens (tokenize_from cfg (position + ?n) (drop ?n (c # cs)))).
                   tok_type t = EQUALS) \<longleftrightarrow> CHR ''='' \<in> set (drop ?n (c # cs))"
          using "2.IH"(3) [OF nsp ndg True pv [symmetric] refl] by simp
        have "tokenize_from cfg position (c # cs) =
              push_token \<lparr>tok_type = VARIABLE, tok_value = take ?n (c # cs), tok_start = position,
                    tok_end = position + ?n\<rparr> ws
                (tokenize_from cfg (position + ?n) (drop ?n (c # cs)))"
          using nsp ndg True pv by simp
        then show ?thesis
          using ih equals_after_letters [of "c # cs"]
          by (simp add: push_token_def)
      next
        case nlt: False
        show ?thesis
        proof (cases "parseSymbol c position")
          case None
          then have "c \<noteq> CHR ''=''" by (auto simp: parseSymbol_def)
          with None nsp ndg nlt "2.IH" show ?thesis
            by (simp add: push_error_def)
        next
          case (Some symbol)
          then have "tok_type symbol = EQUALS \<longleftrightarrow> c = CHR ''=''"
            by (auto simp: parseSymbol_def split: if_splits)
          with Some nsp ndg nlt "2.IH" show ?thesis
            by (auto simp: push_token_def)
        qed
      qed
    qed
  qed
qed

lemma findEqualsSign_from_None:
  "findEqualsSign_from ts k = None \<longleftrightarrow> (\<forall>t \<in> set ts. tok_type t \<noteq> EQUALS)"
  by (induction ts arbitrary: k) auto

lemma findEqualsSign_from_first:
  "findEqualsSign_from ts k = Some i \<Longrightarrow>
     k \<le> i \<and> i - k < length ts \<and> tok_type (ts ! (i - k)) = EQUALS
     \<and> (\<forall>j < i - k. tok_type (ts ! j) \<noteq> EQUALS)"
proof (induction ts arbitrary: k)
  case Nil
  then show ?case by simp
next
  case (Cons t ts)
  show ?case
  proof (cases "tok_type t = EQUALS")
    case True
    with Cons.prems show ?thesis by simp
  next
    case False
    with Cons.prems have "findEqualsSign_from ts (k + 1) = Some i" by simp
    from Cons.IH [OF this] have a: "k + 1 \<le> i" and b: "i - (k + 1) < length ts"
      and c: "tok_type (ts ! (i - (k + 1))) = EQUALS"
      and d: "\<forall>j < i - (k + 1). tok_type (ts ! j) \<noteq> EQUALS" by simp_all
    from a have e: "i - k = Suc (i - (k + 1))" by simp
    show ?thesis
      using a b c d False by (auto simp: e less_Suc_eq_0_disj)
  qed
qed

lemma parseEquation_tokens: "tokens (parseEquation cfg input) = scan_tokens (tokenize cfg input)"
  by (simp add: parseEquation_def Let_def split: option.splits prod.splits)

lemma parseEquation_ast_None_iff:
  "ast (parseEquation cfg input) = None \<longleftrightarrow> CHR ''='' \<notin> set input"
proof -
  let ?toks = "scan_tokens (tokenize cfg input)"
  have eq: "(\<exists>t \<in> set ?toks. tok_type t = EQUALS) \<longleftrightarrow> CHR ''='' \<in> set input"
    using tokenize_from_equals [of cfg 0 input] by (simp add: tokenize_def)
  show ?thesis
  proof (cases "?toks = []")
    case True
    with eq show ?thesis by (simp add: parseEquation_def Let_def)
  next
    case False
    then show ?thesis
      using eq findEqualsSign_from_None [of ?toks 0]
      by (auto simp: parseEquation_def Let_def findEqualsSign_def split: option.splits prod.splits)
  qed
qed

lemma parseEquation_None_errors:
  "ast (parseEquation cfg input) = None \<Longrightarrow>
     errors (parseEquation cfg input) \<noteq> []
     \<and> err_type (last (errors (parseEquation cfg input))) \<in> {empty_expression, syntax_error}"
  by (auto simp: parseEquation_def Let_def split: option.splits prod.splits if_splits)

text \<open>Claim C3 says that whenever the result of \<open>parseEquation\<close> contains an error, its AST
  is null.  The tokenizer goes on after an invalid character, and \<open>parseExpression\<close> returns
  an empty expression after recording its error, so \<open>x =\<close> (empty right side),
  \<open>x = 5 $\<close> (invalid character) and \<open>x = -\<close> (sign without a term) each give an error
  together with an AST.\<close>

theorem parseEquation_errors_with_ast_counterexample:
  "map err_type (errors (parseEquation DEFAULT_ENGINE_CONFIG ''x ='')) = [empty_expression]
   \<and> ast (parseEquation DEFAULT_ENGINE_CONFIG ''x ='') \<noteq> None
   \<and> map err_type (errors (parseEquation DEFAULT_ENGINE_CONFIG ''x = 5 $'')) = [invalid_character]
   \<and> ast (parseEquation DEFAULT_ENGINE_CONFIG ''x = 5 $'') \<noteq> None
   \<and> map err_type (errors (parseEquation DEFAULT_ENGINE_CONFIG ''x = -'')) = [syntax_error]
   \<and> ast (parseEquation DEFAULT_ENGINE_CONFIG ''x = -'') \<noteq> None"
  by code_simp

text \<open>Claim C3, amended: \<open>parseEquation\<close> returns a null AST exactly when the input has no
  \<open>=\<close> character, that is when the token list is empty or has no EQUALS token; the result
  then has at least one error, and its last error is the \<open>empty_expression\<close> or the
  \<open>syntax_error\<close> of that check.\<close>

theorem parseEquation_null_ast:
  "(ast (parseEquation cfg input) = None \<longleftrightarrow> CHR ''='' \<notin> set input)
   \<and> (ast (parseEquation cfg input) = None \<longrightarrow>
         errors (parseEquation cfg input) \<noteq> []
         \<and> err_type (last (errors (parseEquation cfg input))) \<in> {empty_expression, syntax_error})"
  using parseEquation_ast_None_iff parseEquation_None_errors by blast

theorem parseEquation_null_ast_witness:
  "CHR ''='' \<notin> set ''x + 2''
   \<and> ast (parseEquation DEFAULT_ENGINE_CONFIG ''x + 2'') = None
   \<and> errors (parseEquation DEFAULT_ENGINE_CONFIG ''x + 2'') \<noteq> []"
proof -
  have h: "CHR ''='' \<notin> set ''x + 2''" by simp
  with parseEquation_null_ast [of DEFAULT_ENGINE_CONFIG "''x + 2''"] show ?thesis by blast
qed

text \<open>Claim C10: for an input with more than one \<open>=\<close> character, \<open>EquationEngine.parse\<close>
  returns a null AST and the \<open>syntax_error\<close> of the input validation ("only one equals
  sign"), although \<open>parseEquation\<close> alone builds an AST for that input, splitting the tokens
  at the first EQUALS token.\<close>

theorem parse_rejects_multiple_equals:
  assumes "length (filter (\<lambda>c. c = CHR ''='') input) > 1"
  shows "ast (parse cfg input) = None
         \<and> list_ex (\<lambda>e. err_type e = syntax_error \<and> err_message e = Only_one_equals_sign)
             (errors (parse cfg input))
         \<and> ast (parseEquation cfg input) \<noteq> None
         \<and> (\<exists>i. findEqualsSign (tokens (parseEquation cfg input)) = Some i
                \<and> i < length (tokens (parseEquation cfg input))
                \<and> tok_type (tokens (parseEquation cfg input) ! i) = EQUALS
                \<and> list_all (\<lambda>t. tok_type t \<noteq> EQUALS) (take i (tokens (parseEquation cfg input))))"
proof -
  let ?e = "\<lparr>err_type = syntax_error, err_message = Only_one_equals_sign,
             err_severity = high, err_position = None\<rparr>"
  from assms have ne: "filter (\<lambda>c. c = CHR ''='') input \<noteq> []"
    by (metis list.size(3) not_less_zero)
  with assms have ce: "checkEqualsSign input = [?e]"
    by (simp add: checkEqualsSign_def Let_def)
  then have inv: "\<not> isValid (validateInput input)"
    and mem: "?e \<in> set (val_errors (validateInput input))"
    by (simp_all add: validateInput_def Let_def)
  from inv have p: "parse cfg input =
      \<lparr>ast = None, tokens = [], errors = val_errors (validateInput input),
       warnings = val_warnings (validateInput input)\<rparr>"
    by (simp add: parse_def Let_def)
  have ineq: "CHR ''='' \<in> set input"
  proof (rule ccontr)
    assume "CHR ''='' \<notin> set input"
    then have "filter (\<lambda>c. c = CHR ''='') input = []"
      by (auto simp: filter_empty_conv)
    with assms show False by simp
  qed
  then have a: "ast (parseEquation cfg input) \<noteq> None"
    by (simp add: parseEquation_ast_None_iff)
  let ?toks = "tokens (parseEquation cfg input)"
  have "\<exists>t \<in> set ?toks. tok_type t = EQUALS"
    using ineq tokenize_from_equals [of cfg 0 input]
    by (simp add: parseEquation_tokens tokenize_def)
  then obtain i where i: "findEqualsSign ?toks = Some i"
    using findEqualsSign_from_None [of ?toks 0] by (auto simp: findEqualsSign_def)
  from findEqualsSign_from_first [of ?toks 0 i] i
  have "i < length ?toks" "tok_type (?toks ! i) = EQUALS"
    "\<forall>j < i. tok_type (?toks ! j) \<noteq> EQUALS"
    by (simp_all add: findEqualsSign_def)
  then have "list_all (\<lambda>t. tok_type t \<noteq> EQUALS) (take i ?toks)"
    by (auto simp: list_all_length)
  moreover from mem have "list_ex (\<lambda>e. err_type e = syntax_error \<and> err_message e = Only_one_equals_sign)
             (val_errors (validateInput input))"
    unfolding list_ex_iff by (rule bexI [rotated]) simp
  ultimately show ?thesis
    using p a i \<open>i < length ?toks\<close> \<open>tok_type (?toks ! i) = EQUALS\<close> by simp

qed

theorem parse_rejects_multiple_equals_witness:
  "length (filter (\<lambda>c. c = CHR ''='') ''2x = 3x = 4'') > 1
   \<and> ast (parse DEFAULT_ENGINE_CONFIG ''2x = 3x = 4'') = None
   \<and> ast (parseEquation DEFAULT_ENGINE_CONFIG ''2x = 3x = 4'') \<noteq> None"
proof -
  have h: "length (filter (\<lambda>c. c = CHR ''='') ''2x = 3x = 4'') > 1" by simp
  with parse_rejects_multiple_equals [OF h, of DEFAULT_ENGINE_CONFIG] show ?thesis by blast
qed

subsection \<open>Type classifier\<close>

text \<open>Claim C7: \<open>detectEquationType\<close> follows the rules of the specification in their order:
  no variable term gives basic, with a warning; one variable term and at most two terms gives
  basic; several variable terms and at most four terms gives standard; at least three terms,
  one of them a non-constant term with a coefficient of absolute value above 1, gives
  distributive; more than four terms gives complex; anything else is standard.\<close>

theorem detectEquationType_rules:
  "fst (detectEquationType a) = classify_spec a
   \<and> snd (detectEquationType a) =
       (if variable_term_count a = 0
        then [\<lparr>warn_type = unusual_format, warn_message = Equation_without_variables\<rparr>]
        else [])"
  unfolding detectEquationType_def classify_spec_def hasDistributivePattern_def Let_def
    list_ex_iff variable_term_count_def
  by auto

theorem detectEquationType_rules_witness:
  "fst (detectEquationType
          (mk_equation [mk_term 3 (Some ''x''), mk_term 2 None, mk_term 1 None]
             [mk_term 8 None] basic [''x''])) = distributive"
proof -
  have "classify_spec
          (mk_equation [mk_term 3 (Some ''x''), mk_term 2 None, mk_term 1 None]
             [mk_term 8 None] basic [''x'']) = distributive"
    by (simp add: classify_spec_def variable_term_count_def mk_equation_def mk_term_def
        terms_of_def)
  with detectEquationType_rules
         [of "mk_equation [mk_term 3 (Some ''x''), mk_term 2 None, mk_term 1 None]
                [mk_term 8 None] basic [''x'']"]
  show ?thesis by simp
qed

subsection \<open>Step generator\<close>

text \<open>Claim C8: \<open>generateOptimalSequence\<close> never throws.  It returns a step sequence for every
  AST, and around any internal generator: when the internal generation fails, the result is
  the fallback sequence, which has one step and is not optimal.\<close>

theorem generateOptimalSequence_never_throws:
  "(\<exists>seq. generateOptimalSequence equation = Inr seq)
   \<and> (\<exists>seq. generateOptimalSequence_with gen equation = Inr seq
          \<and> ((\<exists>e. gen equation = Inl e) \<longrightarrow> length (steps seq) = 1 \<and> \<not> isOptimal seq))"
  by (auto simp: generateOptimalSequence_def generateOptimalSequence_with_def
      generateFallbackSteps_def analyzeAndGenerateSteps_def split: sum.splits)

theorem generateOptimalSequence_never_throws_witness:
  "\<exists>seq. generateOptimalSequence_with (\<lambda>e. Inl No_variables_found) zero_coefficient_equation
           = Inr seq
         \<and> length (steps seq) = 1 \<and> \<not> isOptimal seq"
  using generateOptimalSequence_never_throws
          [of zero_coefficient_equation "\<lambda>e. Inl No_variables_found"]
  by auto

subsection \<open>Solver\<close>

lemma foldl_add_accumulators:
  "foldl (\<lambda>(variableCoeff, constantTerm) t.
            if variable t = Some var then (variableCoeff + coefficient t, constantTerm)
            else if isConstant t then (variableCoeff, constantTerm + coefficient t)
            else (variableCoeff, constantTerm)) (k, c) ts
   = (k + variable_sum var ts, c + constant_sum var ts)"
  by (induction ts arbitrary: k c) (auto simp: variable_sum_def constant_sum_def)

lemma foldl_subtract_accumulators:
  "foldl (\<lambda>(variableCoeff, constantTerm) t.
            if variable t = Some var then (variableCoeff - coefficient t, constantTerm)
            else if isConstant t then (variableCoeff, constantTerm - coefficient t)
            else (variableCoeff, constantTerm)) (k, c) ts
   = (k - variable_sum var ts, c - constant_sum var ts)"
  by (induction ts arbitrary: k c) (auto simp: variable_sum_def constant_sum_def)

lemma solveMathematically_eq:
  "solveMathematically equation var =
     (if \<bar>accumulated_coefficient equation var\<bar> < 1 / 10 ^ 10 then Inl No_unique_solution
      else Inr (- accumulated_constant equation var / accumulated_coefficient equation var))"
  unfolding solveMathematically_def Let_def foldl_add_accumulators foldl_subtract_accumulators
    accumulated_coefficient_def accumulated_constant_def
  by simp

lemma generateSteps_returns: "\<exists>seq. generateSteps equation = Inr seq"
  by (simp add: generateSteps_def generateOptimalSequence_def generateOptimalSequence_with_def
      analyzeAndGenerateSteps_def)

lemma frontend_solve_fails_on_zero_coefficient:
  assumes "variables equation = var # vs"
    and "\<bar>accumulated_coefficient equation var\<bar> < 1 / 10 ^ 10"
  shows "solve equation = Inl (Error_solving No_unique_solution)"
proof -
  obtain seq where "generateSteps equation = Inr seq"
    using generateSteps_returns by blast
  moreover have "applySolutionSteps equation (steps seq) = Inl No_unique_solution"
    using assms by (simp add: applySolutionSteps_def solveMathematically_eq)
  ultimately show ?thesis
    by (simp add: solve_def)
qed

lemma frontend_solve_fails_without_variables:
  assumes "variables equation = []"
  shows "solve equation = Inl (Error_solving No_variables_found)"
proof -
  obtain seq where "generateSteps equation = Inr seq"
    using generateSteps_returns by blast
  moreover have "applySolutionSteps equation (steps seq) = Inl No_variables_found"
    using assms by (simp add: applySolutionSteps_def)
  ultimately show ?thesis
    by (simp add: solve_def)
qed



text \<open>Claim C1 says that \<open>solve\<close> fails whenever the accumulated variable coefficient is below
  1e-10 in absolute value, and never returns the value 0 instead.  On the AST of
  \<open>0x + 3 = 7\<close> the backend engine returns a solution with value 0 and confidence 0.95,
  where the frontend engine raises its no-unique-solution error.\<close>

theorem backend_solve_zero_coefficient:
  "sol_value (backend_solve zero_coefficient_equation) = 0
   \<and> confidence (backend_solve zero_coefficient_equation) = 95 / 100
   \<and> solve zero_coefficient_equation = Inl (Error_solving No_unique_solution)"
  by code_simp

text \<open>Claim C6: the confidence of a solution returned by \<open>solve\<close> is 0 if a verification
  step is invalid, and otherwise 0.8 plus the bonus of the solution method (between 0.05 and
  0.2), capped at 1; it always lies between 0 and 1.\<close>

theorem solve_confidence:
  assumes "solve equation = Inr sol"
  shows "confidence sol =
           (if list_ex (\<lambda>v. \<not> ver_isValid v) (verificationsSteps sol) then 0
            else min (8 / 10 + methodBonus (solutionMethod sol)) 1)
         \<and> 5 / 100 \<le> methodBonus (solutionMethod sol)
         \<and> methodBonus (solutionMethod sol) \<le> 2 / 10
         \<and> 0 \<le> confidence sol \<and> confidence sol \<le> 1"
proof -
  have bonus: "5 / 100 \<le> methodBonus m \<and> methodBonus m \<le> 2 / 10" for m
    by (cases m) (simp_all add: methodBonus_def)
  from assms obtain ss ps ver where
    ps: "applySolutionSteps equation ss = Inr ps"
    and ver: "verifySolution equation ps = Inr ver"
    and sol: "sol = \<lparr>sol_variable = sol_variable ps, sol_value = sol_value ps,
                     sol_steps = sol_steps ps, solutionMethod = solutionMethod ps,
                     verificationsSteps = ver, confidence = calculateConfidence ps ver\<rparr>"
    by (auto simp: solve_def split: sum.splits)
  from ver obtain v where v: "ver = [v]"
    by (auto simp: verifySolution_def split: sum.splits)
  have conf: "calculateConfidence ps [v] =
      (if ver_isValid v then min (8 / 10 + methodBonus (solutionMethod ps)) 1 else 0)"
    by (simp add: calculateConfidence_def)
  show ?thesis
    using bonus [of "solutionMethod ps"] by (auto simp: conf sol v)
qed

theorem solve_confidence_witness:
  "\<exists>sol. solve two_x_equals_ten = Inr sol \<and> confidence sol = 1"
proof -
  have "\<not> isl (solve two_x_equals_ten)"
    and ok: "\<not> list_ex (\<lambda>v. \<not> ver_isValid v) (verificationsSteps (projr (solve two_x_equals_ten)))"
    and m: "solutionMethod (projr (solve two_x_equals_ten)) = direct_isolation"
    by code_simp+
  then obtain s1 where s1: "solve two_x_equals_ten = Inr s1"
    by (cases "solve two_x_equals_ten") auto
  from ok m s1 have "\<not> list_ex (\<lambda>v. \<not> ver_isValid v) (verificationsSteps s1)"
    and "solutionMethod s1 = direct_isolation" by simp_all
  with solve_confidence [OF s1] have "confidence s1 = 1"
    by (simp add: methodBonus_def)
  with s1 show ?thesis by blast
qed





subsection \<open>Simplifier\<close>

lemma group_term_new_key:
  assumes "term_key t \<notin> fst ` set groups" and "term_key t \<notin> set Object_prototype_keys"
  shows "group_term groups t = groups @ [(term_key t, t)]"
proof -
  from assms(1) have "map_of groups (term_key t) = None"
    by (simp add: map_of_eq_None_iff)
  with assms(2) show ?thesis by (simp add: group_term_def)
qed

lemma foldl_group_term_distinct:
  assumes "distinct (map term_key ts)"
    and "\<forall>t \<in> set ts. term_key t \<notin> fst ` set groups \<and> term_key t \<notin> set Object_prototype_keys"
  shows "foldl group_term groups ts = groups @ map (\<lambda>t. (term_key t, t)) ts"
  using assms
proof (induction ts arbitrary: groups)
  case Nil
  then show ?case by simp
next
  case (Cons t ts)
  have step: "group_term groups t = groups @ [(term_key t, t)]"
    using Cons.prems(2) by (simp add: group_term_new_key)
  have "foldl group_term (groups @ [(term_key t, t)]) ts
          = (groups @ [(term_key t, t)]) @ map (\<lambda>t. (term_key t, t)) ts"
  proof (rule Cons.IH)
    show "distinct (map term_key ts)" using Cons.prems(1) by simp
    show "\<forall>u \<in> set ts. term_key u \<notin> fst ` set (groups @ [(term_key t, t)])
            \<and> term_key u \<notin> set Object_prototype_keys"
      using Cons.prems by (auto simp: image_iff)
  qed
  with step show ?case by simp
qed

lemma mset_Object_values: "mset (Object_values props) = mset (map snd props)"
proof -
  have "mset (Object_values props)
          = image_mset snd (filter_mset (\<lambda>p. is_array_index (fst p)) (mset props))
            + image_mset snd (filter_mset (\<lambda>p. \<not> is_array_index (fst p)) (mset props))"
    by (simp add: Object_values_def)
  also have "\<dots> = image_mset snd (mset props)"
    by (metis image_mset_union multiset_partition)
  finally show ?thesis by simp
qed

text \<open>Claim C9 says that \<open>simplifyExpression\<close> keeps the multiset of terms of an expression
  in which no two terms are like terms and every coefficient is above 1e-10 in absolute value.
  The grouping key of a term is its variable name alone: \<open>x\<close> and \<open>x^2\<close> are not like terms,
  and are merged into \<open>2x\<close>.  And a term whose variable name is a property that the grouping
  object inherits, such as \<open>constructor\<close>, is dropped.\<close>

theorem simplifyExpression_counterexample:
  "\<not> like_terms_spec (mk_term 1 (Some ''x'')) ((mk_term 1 (Some ''x''))\<lparr>exponent := Some 2\<rparr>)
   \<and> \<not> like_terms_spec ((mk_term 1 (Some ''x''))\<lparr>exponent := Some 2\<rparr>) (mk_term 1 (Some ''x''))
   \<and> terms_of (simplifyExpression x_and_x_squared) = [mk_term 2 (Some ''x'')]
   \<and> mset (terms_of (simplifyExpression x_and_x_squared)) \<noteq> mset (terms_of x_and_x_squared)
   \<and> terms_of (simplifyExpression constructor_expression) = []
   \<and> mset (terms_of (simplifyExpression constructor_expression))
       \<noteq> mset (terms_of constructor_expression)"
  by code_simp

text \<open>Claim C9, amended: \<open>simplifyExpression\<close> keeps the multiset of terms of an expression
  in which no two terms have the same grouping key (the variable name, or \<open>constant\<close> for a
  term without one), no key names a property inherited from \<open>Object.prototype\<close>, and every
  coefficient is above 1e-10 in absolute value.\<close>

theorem simplifyExpression_on_simplified:
  assumes "already_simplified e"
  shows "mset (terms_of (simplifyExpression e)) = mset (terms_of e)"
proof (cases "terms e")
  case None
  then show ?thesis by (simp add: simplifyExpression_def)
next
  case (Some ts)
  show ?thesis
  proof (cases "ts = []")
    case True
    with Some show ?thesis by (simp add: simplifyExpression_def)
  next
    case False
    from assms Some have d: "distinct (map term_key ts)"
      and p: "\<forall>t \<in> set ts. term_key t \<notin> set Object_prototype_keys"
      and c: "\<forall>t \<in> set ts. \<bar>coefficient t\<bar> > 1 / 10 ^ 10"
      by (simp_all add: already_simplified_def terms_of_def list_all_iff)
    have groups: "foldl group_term [] ts = map (\<lambda>t. (term_key t, t)) ts"
      using foldl_group_term_distinct [OF d, of "[]"] p by simp
    have "mset (Object_values (foldl group_term [] ts)) = mset ts"
      by (simp add: mset_Object_values groups comp_def)
    moreover have "\<forall>t \<in> set (Object_values (foldl group_term [] ts)). \<bar>coefficient t\<bar> > 1 / 10 ^ 10"
      using c calculation by (metis set_mset_mset)
    ultimately have "mset (filter (\<lambda>t. \<bar>coefficient t\<bar> > 1 / 10 ^ 10)
                             (Object_values (foldl group_term [] ts))) = mset ts"
      by (simp add: filter_id_conv [THEN iffD2])
    with Some False show ?thesis
      by (simp add: simplifyExpression_def terms_of_def)
  qed
qed

theorem simplifyExpression_on_simplified_witness:
  "already_simplified x_plus_one
   \<and> mset (terms_of (simplifyExpression x_plus_one)) = mset (terms_of x_plus_one)"
proof -
  have h: "already_simplified x_plus_one" by code_simp
  from h simplifyExpression_on_simplified [OF h] show ?thesis by (rule conjI)
qed

subsection \<open>Round trip: parse, then solve\<close>










































end
